theory Spec2Isabelle
  imports Main
begin

section \<open>Data model\<close>

text \<open>
  The request payloads of \<^verbatim>\<open>handlers.go\<close> and \<^verbatim>\<open>main.go\<close>: Go structs with
  string fields. A field that is absent from the JSON body keeps Go's zero value, the
  empty string.
\<close>

record Events =
  Name :: string
  Date :: string
  Message :: string

record Credentials =
  Username :: string
  Password :: string

text \<open>
  A Go call either returns or panics. The handlers never recover, so a panic of a callee
  is the outcome of the caller.
\<close>

datatype 'a go = Panic string | Return 'a

subsection \<open>The store\<close>

text \<open>
  The two tables created by \<^verbatim>\<open>Connect\<close>:
  \<^verbatim>\<open>users(id INT AUTO_INCREMENT PRIMARY KEY, username UNIQUE, password)\<close> and
  \<^verbatim>\<open>events(id INT AUTO_INCREMENT PRIMARY KEY, name, message, date, user_id,
  FOREIGN KEY (user_id) REFERENCES users(id), UNIQUE (name, user_id))\<close>.
  Rows are kept in insertion order. Names are compared by equality of strings; the
  column widths and the collation of the server are not part of the model.
\<close>

record user_row =
  u_id :: int
  u_username :: string
  u_password :: string

record event_row =
  e_id :: int
  e_name :: string
  e_message :: string
  e_date :: string
  e_user_id :: int

text \<open>
  The handle \<^verbatim>\<open>*sql.DB\<close>: the rows, the two \<^verbatim>\<open>AUTO_INCREMENT\<close> counters, and for
  each kind of driver call the error the driver answers with when the connection is
  down (\<open>None\<close> when it works). These four fields make every \<^verbatim>\<open>err != nil\<close> branch
  of the handlers reachable.
\<close>

record sql_DB =
  users :: "user_row list"
  events :: "event_row list"
  next_user_id :: int
  next_event_id :: int
  prepare_err :: "string option"
  query_err :: "string option"
  exec_err :: "string option"
  rows_err :: "string option"

datatype sql_error = ErrNoRows | ErrDriver string

fun Error :: "sql_error \<Rightarrow> string" where
  "Error ErrNoRows = ''sql: no rows in result set''"
| "Error (ErrDriver msg) = msg"

text \<open>\<^verbatim>\<open>db.Prepare(...)\<close>: only the connection can fail.\<close>

definition Prepare :: "sql_DB \<Rightarrow> sql_error option" where
  "Prepare db = (case prepare_err db of Some msg \<Rightarrow> Some (ErrDriver msg) | None \<Rightarrow> None)"

text \<open>\<^verbatim>\<open>SELECT id FROM users WHERE username = ?\<close>, scanned into one int.\<close>

definition query_user_id :: "sql_DB \<Rightarrow> string \<Rightarrow> sql_error + int" where
  "query_user_id db username =
     (case query_err db of
        Some msg \<Rightarrow> Inl (ErrDriver msg)
      | None \<Rightarrow>
          (case find (\<lambda>u. u_username u = username) (users db) of
             None \<Rightarrow> Inl ErrNoRows
           | Some u \<Rightarrow> Inr (u_id u)))"

text \<open>\<^verbatim>\<open>SELECT id, name, message, date FROM events WHERE name = ? and user_id = ?\<close>.\<close>

definition query_event :: "sql_DB \<Rightarrow> string \<Rightarrow> int \<Rightarrow> sql_error + event_row" where
  "query_event db name userID =
     (case query_err db of
        Some msg \<Rightarrow> Inl (ErrDriver msg)
      | None \<Rightarrow>
          (case find (\<lambda>e. e_name e = name \<and> e_user_id e = userID) (events db) of
             None \<Rightarrow> Inl ErrNoRows
           | Some e \<Rightarrow> Inr e))"

text \<open>\<^verbatim>\<open>SELECT id, password FROM users WHERE username = ?\<close>.\<close>

definition query_user_credentials :: "sql_DB \<Rightarrow> string \<Rightarrow> sql_error + int \<times> string" where
  "query_user_credentials db username =
     (case query_err db of
        Some msg \<Rightarrow> Inl (ErrDriver msg)
      | None \<Rightarrow>
          (case find (\<lambda>u. u_username u = username) (users db) of
             None \<Rightarrow> Inl ErrNoRows
           | Some u \<Rightarrow> Inr (u_id u, u_password u)))"

text \<open>
  \<^verbatim>\<open>INSERT INTO users (username, password) VALUES (?, ?)\<close>: rejected when the
  username is taken (\<^verbatim>\<open>UNIQUE\<close>).
\<close>

definition insert_user :: "sql_DB \<Rightarrow> string \<Rightarrow> string \<Rightarrow> sql_error + sql_DB" where
  "insert_user db username password =
     (case exec_err db of
        Some msg \<Rightarrow> Inl (ErrDriver msg)
      | None \<Rightarrow>
          if list_ex (\<lambda>u. u_username u = username) (users db)
          then Inl (ErrDriver ''Error 1062: Duplicate entry for key users.username'')
          else Inr (db\<lparr>users := users db @
                          [\<lparr>u_id = next_user_id db, u_username = username,
                            u_password = password\<rparr>],
                        next_user_id := next_user_id db + 1\<rparr>))"

text \<open>
  \<^verbatim>\<open>INSERT INTO events (name, message, date, user_id) VALUES(?,?,?,?)\<close>: rejected
  when no user has that id (\<^verbatim>\<open>FOREIGN KEY\<close>) and when the user already has an event
  of that name (\<^verbatim>\<open>UNIQUE (name, user_id)\<close>).
\<close>

definition insert_event ::
  "sql_DB \<Rightarrow> string \<Rightarrow> string \<Rightarrow> string \<Rightarrow> int \<Rightarrow> sql_error + sql_DB" where
  "insert_event db name message date userID =
     (case exec_err db of
        Some msg \<Rightarrow> Inl (ErrDriver msg)
      | None \<Rightarrow>
          if \<not> list_ex (\<lambda>u. u_id u = userID) (users db)
          then Inl (ErrDriver ''Error 1452: a foreign key constraint fails'')
          else if list_ex (\<lambda>e. e_name e = name \<and> e_user_id e = userID) (events db)
          then Inl (ErrDriver ''Error 1062: Duplicate entry for key events.name'')
          else Inr (db\<lparr>events := events db @
                          [\<lparr>e_id = next_event_id db, e_name = name, e_message = message,
                            e_date = date, e_user_id = userID\<rparr>],
                        next_event_id := next_event_id db + 1\<rparr>))"

text \<open>
  \<^verbatim>\<open>UPDATE events SET name = ?, message = ?, date = ? WHERE id = ?\<close>: rejected when
  another row of the same user already has the new name.
\<close>

definition name_taken :: "sql_DB \<Rightarrow> int \<Rightarrow> string \<Rightarrow> bool" where
  "name_taken db eid name =
     list_ex (\<lambda>r. e_id r = eid \<and>
                list_ex (\<lambda>r'. e_id r' \<noteq> eid \<and> e_name r' = name \<and> e_user_id r' = e_user_id r)
                  (events db))
       (events db)"

definition set_row :: "int \<Rightarrow> string \<Rightarrow> string \<Rightarrow> string \<Rightarrow> event_row \<Rightarrow> event_row" where
  "set_row eid name message date r =
     (if e_id r = eid then r\<lparr>e_name := name, e_message := message, e_date := date\<rparr> else r)"

definition update_event ::
  "sql_DB \<Rightarrow> string \<Rightarrow> string \<Rightarrow> string \<Rightarrow> int \<Rightarrow> sql_error + sql_DB" where
  "update_event db name message date eid =
     (case exec_err db of
        Some msg \<Rightarrow> Inl (ErrDriver msg)
      | None \<Rightarrow>
          if name_taken db eid name
          then Inl (ErrDriver ''Error 1062: Duplicate entry for key events.name'')
          else Inr (db\<lparr>events := map (set_row eid name message date) (events db)\<rparr>))"

text \<open>
  \<^verbatim>\<open>DELETE FROM events WHERE name = ? and user_id = ?\<close>: the result carries the
  number of rows deleted, which \<^verbatim>\<open>result.RowsAffected()\<close> reads.
\<close>

definition delete_event :: "sql_DB \<Rightarrow> string \<Rightarrow> int \<Rightarrow> sql_error + nat \<times> sql_DB" where
  "delete_event db name userID =
     (case exec_err db of
        Some msg \<Rightarrow> Inl (ErrDriver msg)
      | None \<Rightarrow>
          Inr (length (filter (\<lambda>e. e_name e = name \<and> e_user_id e = userID) (events db)),
               db\<lparr>events := filter (\<lambda>e. \<not> (e_name e = name \<and> e_user_id e = userID))
                                (events db)\<rparr>))"

definition RowsAffected :: "sql_DB \<Rightarrow> nat \<Rightarrow> sql_error + nat" where
  "RowsAffected db n = (case rows_err db of Some msg \<Rightarrow> Inl (ErrDriver msg) | None \<Rightarrow> Inr n)"

text \<open>
  The invariant of the store that the schema maintains: primary keys are distinct and
  below the counters, usernames are unique, \<open>(name, user_id)\<close> is unique, and every
  event belongs to a user row.
\<close>

definition wf_db :: "sql_DB \<Rightarrow> bool" where
  "wf_db db \<longleftrightarrow>
     distinct (map u_id (users db)) \<and>
     distinct (map u_username (users db)) \<and>
     distinct (map e_id (events db)) \<and>
     distinct (map (\<lambda>e. (e_name e, e_user_id e)) (events db)) \<and>
     list_all (\<lambda>u. u_id u < next_user_id db) (users db) \<and>
     list_all (\<lambda>e. e_id e < next_event_id db \<and> list_ex (\<lambda>u. u_id u = e_user_id e) (users db))
       (events db)"

subsection \<open>Request context and response\<close>

text \<open>
  What the JWT middleware leaves in \<^verbatim>\<open>c.Locals("user")\<close>: nothing, a
  \<^verbatim>\<open>*jwt.Token\<close> with its claims, or a value of another type. The claims of a token
  are a \<^verbatim>\<open>jwt.MapClaims\<close> (a map from names to JSON values) or another implementation
  of \<^verbatim>\<open>jwt.Claims\<close>.
\<close>

datatype claim = ClaimString string | ClaimNumber int | ClaimBool bool

datatype Claims = MapClaims "string \<rightharpoonup> claim" | OtherClaims

datatype local = NoLocal | JwtToken Claims | OtherLocal

text \<open>The values the handlers put into a \<^verbatim>\<open>fiber.Map\<close>.\<close>

datatype jvalue = JStr string | JInt int | JEvents Events

text \<open>
  \<^verbatim>\<open>*fiber.Ctx\<close>: the parts of the request the handlers read and the response they
  write. \<open>body_events\<close> is what \<^verbatim>\<open>json.Unmarshal(c.Body(), &event)\<close> does with the
  body, \<open>event\<close> being a \<^verbatim>\<open>*Events\<close>: an error (\<open>Inl\<close>), a nil pointer for the JSON
  value \<^verbatim>\<open>null\<close> (\<open>Inr None\<close>), or the struct. \<open>body_creds\<close> is the result of
  \<^verbatim>\<open>c.BodyParser(&creds)\<close>, \<open>None\<close> when it fails. A fresh context has status 200
  and no body.
\<close>

record Ctx =
  locals_user :: local
  params_name :: string
  body_events :: "string + Events option"
  body_creds :: "Credentials option"
  resp_status :: nat
  resp_body :: "(string \<times> jvalue) list option"

definition Status :: "Ctx \<Rightarrow> nat \<Rightarrow> Ctx" where
  "Status c code = c\<lparr>resp_status := code\<rparr>"

definition JSON :: "Ctx \<Rightarrow> (string \<times> jvalue) list \<Rightarrow> Ctx" where
  "JSON c m = c\<lparr>resp_body := Some m\<rparr>"

text \<open>
  \<^verbatim>\<open>c.Status(code)\<close> and \<^verbatim>\<open>c.JSON(m)\<close> overwrite the status and the body of the
  response. \<open>error_map msg\<close> is the map
  \<^verbatim>\<open>fiber.Map{"status": "error", "message": msg}\<close> that the error branches write.
\<close>

definition error_map :: "string \<Rightarrow> (string \<times> jvalue) list" where
  "error_map msg = [(''status'', JStr ''error''), (''message'', JStr msg)]"

section \<open>Identity resolver\<close>

text \<open>
  \<^verbatim>\<open>getUserID\<close>: two checked type assertions that return 0, then the unchecked
  assertion \<^verbatim>\<open>claims["username"].(string)\<close>, which panics when the claim is absent
  (a nil interface) or is not a string, then the lookup of the user row, 0 on any error.
\<close>

definition getUserID :: "Ctx \<Rightarrow> sql_DB \<Rightarrow> int go" where
  "getUserID c db =
     (case locals_user c of
        JwtToken token_claims \<Rightarrow>
          (case token_claims of
             MapClaims claims \<Rightarrow>
               (case claims ''username'' of
                  None \<Rightarrow> Panic ''interface conversion: interface {} is nil, not string''
                | Some (ClaimNumber n) \<Rightarrow>
                    Panic ''interface conversion: interface {} is float64, not string''
                | Some (ClaimBool b) \<Rightarrow>
                    Panic ''interface conversion: interface {} is bool, not string''
                | Some (ClaimString username) \<Rightarrow>
                    (case query_user_id db username of
                       Inl err \<Rightarrow> Return 0
                     | Inr userID \<Rightarrow> Return userID))
           | OtherClaims \<Rightarrow> Return 0)
      | NoLocal \<Rightarrow> Return 0
      | OtherLocal \<Rightarrow> Return 0)"

section \<open>Event handlers\<close>

text \<open>
  \<^verbatim>\<open>GetEvent\<close>. In the \<^verbatim>\<open>sql.ErrNoRows\<close> branch the source writes the 404 response
  without returning, and control reaches the 500 response below it, which overwrites
  status and body.
\<close>

definition GetEvent :: "Ctx \<Rightarrow> sql_DB \<Rightarrow> Ctx go" where
  "GetEvent c db =
     (let eventName = params_name c in
      case getUserID c db of
        Panic p \<Rightarrow> Panic p
      | Return userID \<Rightarrow>
          (case query_event db eventName userID of
             Inl err \<Rightarrow>
               (let c1 = (if err = ErrNoRows
                          then JSON (Status c 404) (error_map (Error err))
                          else c)
                in Return (JSON (Status c1 500) (error_map (Error err))))
           | Inr row \<Rightarrow>
               Return (JSON (Status c 200)
                 [(''status'', JStr ''fetched''),
                  (''event_id'', JInt (e_id row)),
                  (''details'', JEvents \<lparr>Name = e_name row, Date = e_date row,
                                          Message = e_message row\<rparr>),
                  (''message'', JStr ''Event fetched successfully'')])))"

text \<open>
  \<^verbatim>\<open>CreateEvent\<close>. The arguments of \<^verbatim>\<open>insertQuery.Exec\<close> dereference
  \<open>event\<close>, which is nil after the body \<^verbatim>\<open>null\<close>.
\<close>

definition CreateEvent :: "Ctx \<Rightarrow> sql_DB \<Rightarrow> (Ctx \<times> sql_DB) go" where
  "CreateEvent c db =
     (case body_events c of
        Inl err \<Rightarrow> Return (JSON (Status c 400) (error_map err), db)
      | Inr event \<Rightarrow>
          (case getUserID c db of
             Panic p \<Rightarrow> Panic p
           | Return userID \<Rightarrow>
               (case Prepare db of
                  Some err \<Rightarrow> Return (JSON (Status c 500) (error_map (Error err)), db)
                | None \<Rightarrow>
                    (case event of
                       None \<Rightarrow> Panic ''invalid memory address or nil pointer dereference''
                     | Some ev \<Rightarrow>
                         (case insert_event db (Name ev) (Message ev) (Date ev) userID of
                            Inl err \<Rightarrow>
                              Return (JSON (Status c 500) (error_map (Error err)), db)
                          | Inr db' \<Rightarrow>
                              Return (JSON (Status c 200)
                                [(''status'', JStr ''created''),
                                 (''event_name'', JStr (Name ev)),
                                 (''message'', JStr ''Event created successfully'')], db'))))))"

text \<open>
  The three assignments of \<^verbatim>\<open>UpdateEvent\<close> to \<open>oldEvent\<close>, each guarded by
  \<^verbatim>\<open>newEvent.X != ""\<close>.
\<close>

definition merge_event :: "Events \<Rightarrow> Events \<Rightarrow> Events" where
  "merge_event oldEvent newEvent =
     (let o1 = (if Name newEvent \<noteq> [] then oldEvent\<lparr>Name := Name newEvent\<rparr> else oldEvent);
          o2 = (if Message newEvent \<noteq> [] then o1\<lparr>Message := Message newEvent\<rparr> else o1);
          o3 = (if Date newEvent \<noteq> [] then o2\<lparr>Date := Date newEvent\<rparr> else o2)
      in o3)"

definition UpdateEvent :: "Ctx \<Rightarrow> sql_DB \<Rightarrow> (Ctx \<times> sql_DB) go" where
  "UpdateEvent c db =
     (let eventName = params_name c in
      case body_events c of
        Inl err \<Rightarrow> Return (JSON (Status c 400) (error_map err), db)
      | Inr newEvent \<Rightarrow>
          (case getUserID c db of
             Panic p \<Rightarrow> Panic p
           | Return userID \<Rightarrow>
               (case query_event db eventName userID of
                  Inl err \<Rightarrow>
                    if err = ErrNoRows
                    then Return (JSON (Status c 404) (error_map ''Record not found''), db)
                    else Return (JSON (Status c 500) (error_map (Error err)), db)
                | Inr row \<Rightarrow>
                    (case newEvent of
                       None \<Rightarrow> Panic ''invalid memory address or nil pointer dereference''
                     | Some new \<Rightarrow>
                         (let eid = e_id row;
                              oldEvent = merge_event
                                \<lparr>Name = e_name row, Date = e_date row, Message = e_message row\<rparr>
                                new
                          in case Prepare db of
                               Some err \<Rightarrow>
                                 Return (JSON (Status c 500) (error_map (Error err)), db)
                             | None \<Rightarrow>
                                 (case update_event db (Name oldEvent) (Message oldEvent)
                                         (Date oldEvent) eid of
                                    Inl err \<Rightarrow>
                                      Return (JSON (Status c 500) (error_map (Error err)), db)
                                  | Inr db' \<Rightarrow>
                                      Return (JSON (Status c 200)
                                        [(''status'', JStr ''updated''),
                                         (''event_id'', JInt eid),
                                         (''message'', JStr ''Event updated successfully'')],
                                        db')))))))"

definition DeleteEvent :: "Ctx \<Rightarrow> sql_DB \<Rightarrow> (Ctx \<times> sql_DB) go" where
  "DeleteEvent c db =
     (case getUserID c db of
        Panic p \<Rightarrow> Panic p
      | Return userID \<Rightarrow>
          (let eventName = params_name c in
           case Prepare db of
             Some err \<Rightarrow> Return (JSON (Status c 500) (error_map (Error err)), db)
           | None \<Rightarrow>
               (case delete_event db eventName userID of
                  Inl err \<Rightarrow> Return (JSON (Status c 500) (error_map (Error err)), db)
                | Inr (result, db') \<Rightarrow>
                    (case RowsAffected db' result of
                       Inl err \<Rightarrow> Return (JSON (Status c 500) (error_map (Error err)), db')
                     | Inr rowsAffected \<Rightarrow>
                         if rowsAffected = 0
                         then Return (JSON (Status c 404) (error_map ''Record not found''), db')
                         else Return (JSON (Status c 200)
                                [(''status'', JStr ''deleted''),
                                 (''event_name'', JStr eventName),
                                 (''message'', JStr ''Event deleted successfully'')], db')))))"

section \<open>Auth service\<close>

text \<open>
  What \<^verbatim>\<open>main.go\<close> takes from its libraries and from the process: bcrypt's
  comparison of a stored hash with a password (\<open>True\<close> when \<^verbatim>\<open>err == nil\<close>), bcrypt's
  hashing (\<open>Inl\<close> the text of its error), the HS256 signature of a claims map under \<^verbatim>\<open>secretKey\<close> (\<open>None\<close> when
  \<^verbatim>\<open>SignedString\<close> returns an error), and the clock in seconds.
\<close>

record auth_env =
  CompareHashAndPassword :: "string \<Rightarrow> string \<Rightarrow> bool"
  GenerateFromPassword :: "string \<Rightarrow> string + string"
  SignedString :: "(string \<rightharpoonup> claim) \<Rightarrow> string option"
  time_Now :: int

text \<open>\<^verbatim>\<open>jwtSigner\<close>: the expiry is one year, \<open>365 * 24\<close> hours, after now.\<close>

definition token_claims :: "auth_env \<Rightarrow> string \<Rightarrow> (string \<rightharpoonup> claim)" where
  "token_claims env username =
     [''username'' \<mapsto> ClaimString username,
      ''exp'' \<mapsto> ClaimNumber (time_Now env + 3600 * 24 * 365)]"

definition jwtSigner :: "auth_env \<Rightarrow> Ctx \<Rightarrow> string \<Rightarrow> Ctx" where
  "jwtSigner env c username =
     (case SignedString env (token_claims env username) of
        None \<Rightarrow> JSON (Status c 500) [(''error'', JStr ''Failed to generate token'')]
      | Some signedToken \<Rightarrow> JSON c [(''token'', JStr signedToken)])"

definition login :: "auth_env \<Rightarrow> Ctx \<Rightarrow> sql_DB \<Rightarrow> Ctx" where
  "login env c db =
     (case body_creds c of
        None \<Rightarrow> JSON (Status c 400) [(''error'', JStr ''Invalid request'')]
      | Some creds \<Rightarrow>
          (case query_user_credentials db (Username creds) of
             Inl err \<Rightarrow>
               if err = ErrNoRows
               then JSON (Status c 400)
                      (error_map ''No user with the given credentials exists'')
               else JSON (Status c 500) (error_map (Error err))
           | Inr (userID, storedPassword) \<Rightarrow>
               if \<not> CompareHashAndPassword env storedPassword (Password creds)
               then JSON (Status c 401) [(''error'', JStr ''Invalid username or password'')]
               else jwtSigner env c (Username creds)))"

definition signup :: "auth_env \<Rightarrow> Ctx \<Rightarrow> sql_DB \<Rightarrow> Ctx \<times> sql_DB" where
  "signup env c db =
     (case body_creds c of
        None \<Rightarrow> (JSON (Status c 400) [(''error'', JStr ''Invalid request'')], db)
      | Some creds \<Rightarrow>
          (case GenerateFromPassword env (Password creds) of
             Inl err \<Rightarrow> (JSON (Status c 500) (error_map err), db)
           | Inr hashedPassword \<Rightarrow>
               (case Prepare db of
                  Some err \<Rightarrow> (JSON (Status c 500) [(''error'', JStr (Error err))], db)
                | None \<Rightarrow>
                    (case insert_user db (Username creds) hashedPassword of
                       Inl err \<Rightarrow> (JSON (Status c 500) (error_map (Error err)), db)
                     | Inr db' \<Rightarrow> (jwtSigner env c (Username creds), db')))))"

section \<open>Routes\<close>

text \<open>
  The route table of \<^verbatim>\<open>main\<close>: two public routes, and the group \<^verbatim>\<open>/api/v1\<close> of
  four event routes behind the JWT middleware. The middleware is library code; the model
  starts where it has let the request through and has set \<^verbatim>\<open>c.Locals("user")\<close>.
\<close>

datatype route =
  PostLogin | PostSignup | PostEvent | GetEventName | PutEventName | DeleteEventName

definition app :: "auth_env \<Rightarrow> route \<Rightarrow> Ctx \<Rightarrow> sql_DB \<Rightarrow> (Ctx \<times> sql_DB) go" where
  "app env r c db =
     (case r of
        PostLogin \<Rightarrow> Return (login env c db, db)
      | PostSignup \<Rightarrow> Return (signup env c db)
      | PostEvent \<Rightarrow> CreateEvent c db
      | GetEventName \<Rightarrow>
          (case GetEvent c db of Panic p \<Rightarrow> Panic p | Return c' \<Rightarrow> Return (c', db))
      | PutEventName \<Rightarrow> UpdateEvent c db
      | DeleteEventName \<Rightarrow> DeleteEvent c db)"

definition protected :: "route \<Rightarrow> bool" where
  "protected r \<longleftrightarrow> r \<noteq> PostLogin \<and> r \<noteq> PostSignup"

section \<open>Properties of responses\<close>

text \<open>
  The response envelope: the body is a JSON object with a \<open>status\<close> field that is one
  of the five status words, and a \<open>message\<close> field.
\<close>

definition has_envelope :: "Ctx \<Rightarrow> bool" where
  "has_envelope c =
     (case resp_body c of
        None \<Rightarrow> False
      | Some m \<Rightarrow>
          (case map_of m ''status'' of
             Some (JStr s) \<Rightarrow>
               s \<in> set [''created'', ''updated'', ''fetched'', ''deleted'', ''error'']
           | _ \<Rightarrow> False) \<and>
          map_of m ''message'' \<noteq> None)"

text \<open>The rows of the events table that belong to other users than \<open>userID\<close>.\<close>

definition rows_of_others :: "int \<Rightarrow> sql_DB \<Rightarrow> event_row list" where
  "rows_of_others userID db = filter (\<lambda>e. e_user_id e \<noteq> userID) (events db)"

section \<open>Example data\<close>

text \<open>
  Two users and two events of the first one, a request carrying a token for a username,
  and a toy instance of the libraries, used where a statement is evaluated on a
  concrete input.
\<close>

definition alice :: user_row where
  "alice = \<lparr>u_id = 1, u_username = ''alice'', u_password = ''hash:secret''\<rparr>"

definition bob :: user_row where
  "bob = \<lparr>u_id = 2, u_username = ''bob'', u_password = ''hash:hunter2''\<rparr>"

definition meeting :: event_row where
  "meeting = \<lparr>e_id = 1, e_name = ''Meeting'', e_message = ''sync'',
               e_date = ''2025-01-15'', e_user_id = 1\<rparr>"

definition standup :: event_row where
  "standup = \<lparr>e_id = 2, e_name = ''Standup'', e_message = ''daily'',
               e_date = ''2025-01-20'', e_user_id = 1\<rparr>"

definition store :: "event_row list \<Rightarrow> sql_DB" where
  "store evs = \<lparr>users = [alice, bob], events = evs, next_user_id = 3, next_event_id = 3,
                prepare_err = None, query_err = None, exec_err = None, rows_err = None\<rparr>"

definition bearer :: "string \<Rightarrow> local" where
  "bearer username = JwtToken (MapClaims [''username'' \<mapsto> ClaimString username])"

definition request :: "local \<Rightarrow> string \<Rightarrow> Ctx" where
  "request user name =
     \<lparr>locals_user = user, params_name = name,
      body_events = Inl ''unexpected end of JSON input'', body_creds = None,
      resp_status = 200, resp_body = None\<rparr>"

definition toy_env :: auth_env where
  "toy_env =
     \<lparr>CompareHashAndPassword = (\<lambda>hash password. hash = ''hash:'' @ password),
      GenerateFromPassword = (\<lambda>password. Inr (''hash:'' @ password)),
      SignedString = (\<lambda>claims. case claims ''username'' of
                                   Some (ClaimString u) \<Rightarrow> Some (''jwt:'' @ u)
                                 | _ \<Rightarrow> None),
      time_Now = 1700000000\<rparr>"

section \<open>Evaluation on the example data\<close>

lemmas example_defs =
  alice_def bob_def meeting_def standup_def store_def bearer_def request_def

lemmas handler_defs =
  getUserID_def query_user_id_def query_event_def Prepare_def Status_def JSON_def
  error_map_def

section \<open>Facts about the store\<close>

lemma find_distinct_key:
  "distinct (map f xs) \<Longrightarrow> x \<in> set xs \<Longrightarrow> find (\<lambda>y. f y = f x) xs = Some x"
  by (induction xs) (auto simp: image_iff)

lemma same_key_same_row:
  "distinct (map f xs) \<Longrightarrow> x \<in> set xs \<Longrightarrow> y \<in> set xs \<Longrightarrow> f x = f y \<Longrightarrow> x = y"
  by (meson distinct_map inj_onD)

lemma find_Some_member: "find P xs = Some x \<Longrightarrow> x \<in> set xs \<and> P x"
  by (induction xs) (auto split: if_splits)

lemma find_appended:
  "\<not> list_ex P xs \<Longrightarrow> P x \<Longrightarrow> find P (xs @ [x]) = Some x"
  by (induction xs) auto

lemma query_event_Inr:
  "query_event db name userID = Inr row \<Longrightarrow>
     query_err db = None \<and> row \<in> set (events db) \<and> e_name row = name \<and> e_user_id row = userID"
  by (auto simp: query_event_def split: option.splits dest: find_Some_member)

lemma query_event_no_rows:
  "query_event db name userID = Inl ErrNoRows \<longleftrightarrow>
     query_err db = None \<and> \<not> list_ex (\<lambda>e. e_name e = name \<and> e_user_id e = userID) (events db)"
proof (cases "find (\<lambda>e. e_name e = name \<and> e_user_id e = userID) (events db)")
  case None
  then have "\<not> list_ex (\<lambda>e. e_name e = name \<and> e_user_id e = userID) (events db)"
    unfolding find_None_iff list_ex_iff by blast
  with None show ?thesis
    by (simp add: query_event_def split: option.splits)
next
  case (Some e)
  from find_Some_member [OF this] have "list_ex (\<lambda>e. e_name e = name \<and> e_user_id e = userID) (events db)"
    unfolding list_ex_iff by blast
  with Some show ?thesis
    by (simp add: query_event_def split: option.splits)
qed

lemma query_user_credentials_none:
  assumes "query_err db = None"
    and "\<not> list_ex (\<lambda>u. u_username u = username) (users db)"
  shows "query_user_credentials db username = Inl ErrNoRows"
proof -
  from assms(2) have "find (\<lambda>u. u_username u = username) (users db) = None"
    unfolding find_None_iff list_ex_iff by blast
  with assms(1) show ?thesis
    by (simp add: query_user_credentials_def)
qed

lemma query_user_credentials_row:
  assumes "query_err db = None" and "distinct (map u_username (users db))"
    and "u \<in> set (users db)"
  shows "query_user_credentials db (u_username u) = Inr (u_id u, u_password u)"
  using assms(1) find_distinct_key [OF assms(2,3)]
  by (simp add: query_user_credentials_def)

lemma insert_event_Inr:
  assumes "insert_event db name message date userID = Inr db'"
  shows "events db' = events db @
           [\<lparr>e_id = next_event_id db, e_name = name, e_message = message, e_date = date,
             e_user_id = userID\<rparr>]"
    and "users db' = users db"
    and "query_err db' = query_err db"
    and "\<not> list_ex (\<lambda>e. e_name e = name \<and> e_user_id e = userID) (events db)"
    and "list_ex (\<lambda>u. u_id u = userID) (users db)"
  using assms by (auto simp: insert_event_def split: option.splits if_splits)

lemma merge_event_fields:
  "Name (merge_event old new) = (if Name new \<noteq> [] then Name new else Name old)"
  "Message (merge_event old new) = (if Message new \<noteq> [] then Message new else Message old)"
  "Date (merge_event old new) = (if Date new \<noteq> [] then Date new else Date old)"
  by (simp_all add: merge_event_def Let_def)

lemma set_row_keeps:
  "e_id (set_row eid name message date r) = e_id r"
  "e_user_id (set_row eid name message date r) = e_user_id r"
  "e_id r \<noteq> eid \<Longrightarrow> set_row eid name message date r = r"
  "e_id r = eid \<Longrightarrow> e_name (set_row eid name message date r) = name"
  by (simp_all add: set_row_def)

lemma name_taken_iff:
  assumes "distinct (map e_id (events db))" and "row \<in> set (events db)"
  shows "name_taken db (e_id row) name \<longleftrightarrow>
           (\<exists>r'\<in>set (events db). r' \<noteq> row \<and> e_name r' = name \<and> e_user_id r' = e_user_id row)"
proof
  assume "name_taken db (e_id row) name"
  then obtain r r' where r: "r \<in> set (events db)" "e_id r = e_id row"
    and r': "r' \<in> set (events db)" "e_id r' \<noteq> e_id row" "e_name r' = name"
      "e_user_id r' = e_user_id r"
    unfolding name_taken_def list_ex_iff by auto
  from same_key_same_row [OF assms(1) r(1) assms(2) r(2)] have "r = row" .
  with r' show "\<exists>r'\<in>set (events db). r' \<noteq> row \<and> e_name r' = name \<and> e_user_id r' = e_user_id row"
    by auto
next
  assume "\<exists>r'\<in>set (events db). r' \<noteq> row \<and> e_name r' = name \<and> e_user_id r' = e_user_id row"
  then obtain r' where r': "r' \<in> set (events db)" "r' \<noteq> row" "e_name r' = name"
      "e_user_id r' = e_user_id row"
    by auto
  from same_key_same_row [OF assms(1) r'(1) assms(2)] r'(2) have "e_id r' \<noteq> e_id row"
    by auto
  with r' assms(2) show "name_taken db (e_id row) name"
    unfolding name_taken_def list_ex_iff by auto
qed

lemma map_set_row:
  assumes "distinct (map e_id evs)" and "row \<in> set evs"
  shows "map (set_row (e_id row) name message date) evs =
           map (\<lambda>r. if r = row then row\<lparr>e_name := name, e_message := message, e_date := date\<rparr>
                     else r) evs"
proof (rule map_cong [OF refl])
  fix r assume "r \<in> set evs"
  then have "e_id r = e_id row \<longleftrightarrow> r = row"
    using same_key_same_row [OF assms(1) _ assms(2)] by blast
  then show "set_row (e_id row) name message date r =
             (if r = row then row\<lparr>e_name := name, e_message := message, e_date := date\<rparr> else r)"
    by (simp add: set_row_def)
qed

text \<open>Writing a row back with its own values changes nothing.\<close>

lemma own_name_not_taken:
  assumes wf: "wf_db db" and mem: "row \<in> set (events db)"
  shows "\<not> name_taken db (e_id row) (e_name row)"
proof
  assume "name_taken db (e_id row) (e_name row)"
  moreover from wf have ids: "distinct (map e_id (events db))"
    by (simp add: wf_db_def)
  ultimately obtain r' where r': "r' \<in> set (events db)" "r' \<noteq> row"
      "e_name r' = e_name row" "e_user_id r' = e_user_id row"
    using name_taken_iff [OF ids mem] by auto
  from wf have "distinct (map (\<lambda>e. (e_name e, e_user_id e)) (events db))"
    by (simp add: wf_db_def)
  from same_key_same_row [OF this r'(1) mem] r'(3,4) have "r' = row"
    by simp
  with r'(2) show False by simp
qed

lemma map_set_row_same:
  assumes "distinct (map e_id evs)" and "row \<in> set evs"
  shows "map (set_row (e_id row) (e_name row) (e_message row) (e_date row)) evs = evs"
proof -
  have "map (set_row (e_id row) (e_name row) (e_message row) (e_date row)) evs = map (\<lambda>r. r) evs"
    unfolding map_set_row [OF assms] by (rule map_cong [OF refl]) simp
  then show ?thesis by simp
qed

section \<open>The identity resolver\<close>

text \<open>
  With a string \<open>username\<close> claim the resolver returns: the id of the user row, or 0
  when the lookup fails.
\<close>

lemma getUserID_resolves:
  assumes "locals_user c = JwtToken (MapClaims claims)"
    and "claims ''username'' = Some (ClaimString username)"
  shows "getUserID c db =
           Return (case query_user_id db username of Inl err \<Rightarrow> 0 | Inr userID \<Rightarrow> userID)"
  using assms by (simp add: getUserID_def split: sum.splits)

lemma getUserID_stored_id:
  assumes "locals_user c = JwtToken (MapClaims claims)"
    and "claims ''username'' = Some (ClaimString (u_username u))"
    and "query_err db = None" and "distinct (map u_username (users db))"
    and "u \<in> set (users db)"
  shows "getUserID c db = Return (u_id u)"
  using assms(1,2,3) find_distinct_key [OF assms(4,5)]
  by (simp add: getUserID_def query_user_id_def)

lemma getUserID_no_row:
  assumes "locals_user c = JwtToken (MapClaims claims)"
    and "claims ''username'' = Some (ClaimString username)"
    and "\<not> list_ex (\<lambda>u. u_username u = username) (users db)"
  shows "getUserID c db = Return 0"
proof -
  from assms(3) have "find (\<lambda>u. u_username u = username) (users db) = None"
    unfolding find_None_iff list_ex_iff by blast
  with assms(1,2) show ?thesis
    by (simp add: getUserID_def query_user_id_def split: option.splits)
qed

lemma getUserID_same_identity:
  assumes "locals_user c2 = locals_user c" and "users db2 = users db"
    and "query_err db2 = query_err db"
  shows "getUserID c2 db2 = getUserID c db"
proof -
  have q: "query_user_id db2 username = query_user_id db username" for username
    unfolding query_user_id_def assms(2) assms(3) ..
  show ?thesis
    unfolding getUserID_def assms(1) q ..
qed

text \<open>The resolver panics exactly when the claims are a map without a string \<open>username\<close>.\<close>

lemma getUserID_panics_iff:
  "(\<exists>p. getUserID c db = Panic p) \<longleftrightarrow>
     (\<exists>claims. locals_user c = JwtToken (MapClaims claims) \<and>
        (\<forall>username. claims ''username'' \<noteq> Some (ClaimString username)))"
  by (auto simp: getUserID_def
      split: local.splits Claims.splits option.splits claim.splits sum.splits)

text \<open>
  Claim C2 (the resolver is total and answers 0 on a missing or malformed username
  claim). The code panics there: for a verified token whose claims are a map without
  \<open>username\<close>, the unchecked assertion \<^verbatim>\<open>claims["username"].(string)\<close> is reached
  and \<open>getUserID\<close> does not return.
\<close>

theorem getUserID_panics_without_username:
  "getUserID (request (JwtToken (MapClaims [''exp'' \<mapsto> ClaimNumber 1731536000])) ''Meeting'')
     (store [meeting]) =
   Panic ''interface conversion: interface {} is nil, not string''"
  by (simp add: handler_defs example_defs)

section \<open>Reading an event\<close>

text \<open>
  When no row matches, the response that leaves \<open>GetEvent\<close> is the 500 response; no
  request is answered with 404.
\<close>

lemma GetEvent_no_match:
  assumes "getUserID c db = Return userID" and "query_err db = None"
    and "\<not> list_ex (\<lambda>e. e_name e = params_name c \<and> e_user_id e = userID) (events db)"
  shows "GetEvent c db =
           Return (JSON (Status c 500) (error_map ''sql: no rows in result set''))"
proof -
  from assms(2,3) have "query_event db (params_name c) userID = Inl ErrNoRows"
    by (simp add: query_event_no_rows)
  with assms(1) show ?thesis
    by (simp add: GetEvent_def Let_def Status_def JSON_def)
qed

lemma GetEvent_never_404:
  "GetEvent c db = Return c' \<Longrightarrow> resp_status c' = 200 \<or> resp_status c' = 500"
  by (auto simp: GetEvent_def Let_def Status_def JSON_def split: go.splits sum.splits)

text \<open>A 200 response carries a row of the resolved user.\<close>

lemma GetEvent_own_row:
  assumes "GetEvent c db = Return c'" and "resp_status c' = 200"
  shows "\<exists>userID row.
           getUserID c db = Return userID \<and> row \<in> set (events db) \<and>
           e_user_id row = userID \<and> e_name row = params_name c \<and>
           resp_body c' = Some
             [(''status'', JStr ''fetched''), (''event_id'', JInt (e_id row)),
              (''details'', JEvents \<lparr>Name = e_name row, Date = e_date row,
                                      Message = e_message row\<rparr>),
              (''message'', JStr ''Event fetched successfully'')]"
proof -
  from assms obtain userID row where
    uid: "getUserID c db = Return userID"
    and row: "query_event db (params_name c) userID = Inr row"
    and c': "c' = JSON (Status c 200)
                [(''status'', JStr ''fetched''), (''event_id'', JInt (e_id row)),
                 (''details'', JEvents \<lparr>Name = e_name row, Date = e_date row,
                                         Message = e_message row\<rparr>),
                 (''message'', JStr ''Event fetched successfully'')]"
    by (auto simp: GetEvent_def Let_def Status_def JSON_def split: go.splits sum.splits)
  from query_event_Inr [OF row] uid c' show ?thesis
    by (auto simp: JSON_def)
qed

text \<open>
  Claim C1 (a lookup that matches no row answers 404, never 500, also for the
  sentinel owner 0). The code answers 500: the token of a user without a row resolves to
  0, no event matches, and the response that leaves \<open>GetEvent\<close> has status 500 with
  the text of \<^verbatim>\<open>sql.ErrNoRows\<close>.
\<close>

theorem GetEvent_unknown_user_answers_500:
  "getUserID (request (bearer ''carol'') ''Meeting'') (store [meeting]) = Return 0 \<and>
   GetEvent (request (bearer ''carol'') ''Meeting'') (store [meeting]) =
     Return ((request (bearer ''carol'') ''Meeting'')
       \<lparr>resp_status := 500,
        resp_body := Some [(''status'', JStr ''error''),
                           (''message'', JStr ''sql: no rows in result set'')]\<rparr>)"
  by (simp add: GetEvent_def handler_defs example_defs)

section \<open>Updating an event\<close>

text \<open>Once the row is found, the outcome is that of the \<^verbatim>\<open>UPDATE\<close> of the merged values.\<close>

lemma UpdateEvent_found:
  assumes "getUserID c db = Return userID"
    and "query_event db (params_name c) userID = Inr row"
    and "body_events c = Inr (Some patch)"
    and "prepare_err db = None"
  shows "UpdateEvent c db =
     (let m = merge_event \<lparr>Name = e_name row, Date = e_date row, Message = e_message row\<rparr> patch
      in case update_event db (Name m) (Message m) (Date m) (e_id row) of
           Inl err \<Rightarrow> Return (JSON (Status c 500) (error_map (Error err)), db)
         | Inr db' \<Rightarrow>
             Return (JSON (Status c 200)
               [(''status'', JStr ''updated''), (''event_id'', JInt (e_id row)),
                (''message'', JStr ''Event updated successfully'')], db'))"
  using assms by (simp add: UpdateEvent_def Prepare_def Let_def)

text \<open>
  Claim C3, as amended. For an existing event of the resolved user and a parsed patch,
  with a working driver: each of name, message and date of the row is replaced by the
  patch value exactly when that value is non-empty, and the merged row is written under
  the row's id, all other rows unchanged, unless another event of the same user already
  has the merged name; then the \<^verbatim>\<open>UNIQUE (name, user_id)\<close> constraint rejects the write,
  the answer is 500 and the store is unchanged.
\<close>

theorem UpdateEvent_writes_merged_row:
  assumes wf: "wf_db db"
    and drv: "prepare_err db = None" "exec_err db = None"
    and uid: "getUserID c db = Return userID"
    and row: "query_event db (params_name c) userID = Inr row"
    and body: "body_events c = Inr (Some patch)"
  shows "UpdateEvent c db =
     (let name = (if Name patch \<noteq> [] then Name patch else e_name row);
          message = (if Message patch \<noteq> [] then Message patch else e_message row);
          date = (if Date patch \<noteq> [] then Date patch else e_date row)
      in if list_ex (\<lambda>r'. r' \<noteq> row \<and> e_name r' = name \<and> e_user_id r' = userID) (events db)
         then Return (JSON (Status c 500)
                (error_map ''Error 1062: Duplicate entry for key events.name''), db)
         else Return (JSON (Status c 200)
                [(''status'', JStr ''updated''), (''event_id'', JInt (e_id row)),
                 (''message'', JStr ''Event updated successfully'')],
                db\<lparr>events := map (\<lambda>r. if r = row
                                        then row\<lparr>e_name := name, e_message := message,
                                                 e_date := date\<rparr>
                                        else r) (events db)\<rparr>))"
proof -
  from row have mem: "row \<in> set (events db)" and owner: "e_user_id row = userID"
    using query_event_Inr by blast+
  from wf have ids: "distinct (map e_id (events db))"
    by (simp add: wf_db_def)
  define m where
    "m = merge_event \<lparr>Name = e_name row, Date = e_date row, Message = e_message row\<rparr> patch"
  define name where "name = (if Name patch \<noteq> [] then Name patch else e_name row)"
  define message where
    "message = (if Message patch \<noteq> [] then Message patch else e_message row)"
  define date where "date = (if Date patch \<noteq> [] then Date patch else e_date row)"
  have fields: "Name m = name" "Message m = message" "Date m = date"
    by (simp_all add: m_def name_def message_def date_def merge_event_fields)
  have taken: "name_taken db (e_id row) name \<longleftrightarrow>
      list_ex (\<lambda>r'. r' \<noteq> row \<and> e_name r' = name \<and> e_user_id r' = userID) (events db)"
    using name_taken_iff [OF ids mem] owner by (simp add: list_ex_iff)
  have upd: "update_event db name message date (e_id row) =
      (if list_ex (\<lambda>r'. r' \<noteq> row \<and> e_name r' = name \<and> e_user_id r' = userID) (events db)
       then Inl (ErrDriver ''Error 1062: Duplicate entry for key events.name'')
       else Inr (db\<lparr>events := map (\<lambda>r. if r = row
                                          then row\<lparr>e_name := name, e_message := message,
                                                   e_date := date\<rparr>
                                          else r) (events db)\<rparr>))"
    using drv(2) by (simp add: update_event_def taken map_set_row [OF ids mem])
  have "UpdateEvent c db =
      (case update_event db name message date (e_id row) of
         Inl err \<Rightarrow> Return (JSON (Status c 500) (error_map (Error err)), db)
       | Inr db' \<Rightarrow>
           Return (JSON (Status c 200)
             [(''status'', JStr ''updated''), (''event_id'', JInt (e_id row)),
              (''message'', JStr ''Event updated successfully'')], db'))"
    unfolding UpdateEvent_found [OF uid row body drv(1)] Let_def m_def [symmetric] fields ..
  also have "\<dots> =
      (if list_ex (\<lambda>r'. r' \<noteq> row \<and> e_name r' = name \<and> e_user_id r' = userID) (events db)
       then Return (JSON (Status c 500)
              (error_map ''Error 1062: Duplicate entry for key events.name''), db)
       else Return (JSON (Status c 200)
              [(''status'', JStr ''updated''), (''event_id'', JInt (e_id row)),
               (''message'', JStr ''Event updated successfully'')],
              db\<lparr>events := map (\<lambda>r. if r = row
                                      then row\<lparr>e_name := name, e_message := message,
                                               e_date := date\<rparr>
                                      else r) (events db)\<rparr>))"
    unfolding upd by (simp split: if_splits)
  finally show ?thesis
    by (simp add: name_def message_def date_def Let_def)
qed

text \<open>The example of the specification: a patch with a date only.\<close>

theorem UpdateEvent_writes_merged_row_witness:
  "wf_db (store [meeting, standup]) \<and>
   getUserID ((request (bearer ''alice'') ''Meeting'')
        \<lparr>body_events := Inr (Some \<lparr>Name = [], Date = ''2025-01-16'', Message = []\<rparr>)\<rparr>)
     (store [meeting, standup]) = Return 1 \<and>
   query_event (store [meeting, standup]) ''Meeting'' 1 = Inr meeting \<and>
   UpdateEvent
     ((request (bearer ''alice'') ''Meeting'')
        \<lparr>body_events := Inr (Some \<lparr>Name = [], Date = ''2025-01-16'', Message = []\<rparr>)\<rparr>)
     (store [meeting, standup]) =
   Return
     ((request (bearer ''alice'') ''Meeting'')
        \<lparr>body_events := Inr (Some \<lparr>Name = [], Date = ''2025-01-16'', Message = []\<rparr>),
         resp_status := 200,
         resp_body := Some [(''status'', JStr ''updated''), (''event_id'', JInt 1),
                            (''message'', JStr ''Event updated successfully'')]\<rparr>,
      store [meeting\<lparr>e_date := ''2025-01-16''\<rparr>, standup])"
proof -
  let ?c = "(request (bearer ''alice'') ''Meeting'')
        \<lparr>body_events := Inr (Some \<lparr>Name = [], Date = ''2025-01-16'', Message = []\<rparr>)\<rparr>"
  let ?db = "store [meeting, standup]"
  have wf: "wf_db ?db"
    by (simp add: wf_db_def example_defs)
  have drv: "prepare_err ?db = None" "exec_err ?db = None"
    by (simp_all add: store_def)
  have uid: "getUserID ?c ?db = Return 1"
    by (simp add: handler_defs example_defs)
  have row: "query_event ?db (params_name ?c) 1 = Inr meeting"
    by (simp add: handler_defs example_defs)
  have body: "body_events ?c = Inr (Some \<lparr>Name = [], Date = ''2025-01-16'', Message = []\<rparr>)"
    by (simp add: request_def)
  have name: "params_name ?c = ''Meeting''"
    by (simp add: request_def)
  from UpdateEvent_writes_merged_row [OF wf drv uid row body] wf uid row name
  show ?thesis
    by (simp add: Let_def Status_def JSON_def example_defs)
qed

text \<open>
  Renaming \<open>Meeting\<close> to the name of the user's other event: the patch name is not
  empty, and the stored name is not replaced.
\<close>

theorem UpdateEvent_rename_collision:
  "UpdateEvent
     ((request (bearer ''alice'') ''Meeting'')
        \<lparr>body_events := Inr (Some \<lparr>Name = ''Standup'', Date = [], Message = []\<rparr>)\<rparr>)
     (store [meeting, standup]) =
   Return
     ((request (bearer ''alice'') ''Meeting'')
        \<lparr>body_events := Inr (Some \<lparr>Name = ''Standup'', Date = [], Message = []\<rparr>),
         resp_status := 500,
         resp_body := Some [(''status'', JStr ''error''),
                            (''message'', JStr ''Error 1062: Duplicate entry for key events.name'')]\<rparr>,
      store [meeting, standup])"
  by (simp add: UpdateEvent_def update_event_def name_taken_def set_row_def merge_event_def
      Let_def handler_defs example_defs)

text \<open>
  Claim C10. For an existing event of the resolved user, in a store that satisfies the
  invariant and with a working driver, an update whose parsed patch has three empty
  fields leaves the store as it was, and the answer is the success response: status 200,
  \<open>status\<close> \<open>updated\<close>, the id of the row.
\<close>

theorem UpdateEvent_empty_patch_identity:
  assumes wf: "wf_db db"
    and drv: "prepare_err db = None" "exec_err db = None"
    and uid: "getUserID c db = Return userID"
    and row: "query_event db (params_name c) userID = Inr row"
    and body: "body_events c = Inr (Some patch)"
    and empty: "Name patch = []" "Message patch = []" "Date patch = []"
  shows "UpdateEvent c db =
     Return (JSON (Status c 200)
               [(''status'', JStr ''updated''), (''event_id'', JInt (e_id row)),
                (''message'', JStr ''Event updated successfully'')], db)"
proof -
  from row have mem: "row \<in> set (events db)"
    using query_event_Inr by blast
  from wf have ids: "distinct (map e_id (events db))"
    by (simp add: wf_db_def)
  have same: "db\<lparr>events := events db\<rparr> = db"
    by simp
  have "update_event db (e_name row) (e_message row) (e_date row) (e_id row) = Inr db"
    using drv(2) own_name_not_taken [OF wf mem]
    by (simp add: update_event_def map_set_row_same [OF ids mem])
  then show ?thesis
    unfolding UpdateEvent_found [OF uid row body drv(1)]
    using empty by (simp add: Let_def merge_event_fields)
qed

text \<open>An empty patch for the second event of the example store.\<close>

theorem UpdateEvent_empty_patch_identity_witness:
  "wf_db (store [meeting, standup]) \<and>
   getUserID ((request (bearer ''alice'') ''Standup'')
        \<lparr>body_events := Inr (Some \<lparr>Name = [], Date = [], Message = []\<rparr>)\<rparr>)
     (store [meeting, standup]) = Return 1 \<and>
   query_event (store [meeting, standup]) ''Standup'' 1 = Inr standup \<and>
   UpdateEvent
     ((request (bearer ''alice'') ''Standup'')
        \<lparr>body_events := Inr (Some \<lparr>Name = [], Date = [], Message = []\<rparr>)\<rparr>)
     (store [meeting, standup]) =
   Return
     ((request (bearer ''alice'') ''Standup'')
        \<lparr>body_events := Inr (Some \<lparr>Name = [], Date = [], Message = []\<rparr>),
         resp_status := 200,
         resp_body := Some [(''status'', JStr ''updated''), (''event_id'', JInt 2),
                            (''message'', JStr ''Event updated successfully'')]\<rparr>,
      store [meeting, standup])"
proof -
  let ?c = "(request (bearer ''alice'') ''Standup'')
        \<lparr>body_events := Inr (Some \<lparr>Name = [], Date = [], Message = []\<rparr>)\<rparr>"
  let ?db = "store [meeting, standup]"
  have wf: "wf_db ?db"
    by (simp add: wf_db_def example_defs)
  have drv: "prepare_err ?db = None" "exec_err ?db = None"
    by (simp_all add: store_def)
  have uid: "getUserID ?c ?db = Return 1"
    by (simp add: handler_defs example_defs)
  have row: "query_event ?db (params_name ?c) 1 = Inr standup"
    by (simp add: handler_defs example_defs)
  have body: "body_events ?c = Inr (Some \<lparr>Name = [], Date = [], Message = []\<rparr>)"
    by (simp add: request_def)
  have name: "params_name ?c = ''Standup''"
    by (simp add: request_def)
  from UpdateEvent_empty_patch_identity [OF wf drv uid row body] wf uid row name
  show ?thesis
    by (simp add: Status_def JSON_def standup_def request_def)
qed

subsection \<open>The response of a successful update\<close>

lemma UpdateEvent_200:
  assumes "UpdateEvent c db = Return (c', db')" and "resp_status c' = 200"
  shows "\<exists>userID row patch.
           getUserID c db = Return userID \<and>
           query_event db (params_name c) userID = Inr row \<and>
           body_events c = Inr (Some patch) \<and>
           c' = JSON (Status c 200)
                  [(''status'', JStr ''updated''), (''event_id'', JInt (e_id row)),
                   (''message'', JStr ''Event updated successfully'')]"
  using assms
  by (auto simp: UpdateEvent_def Let_def Status_def JSON_def
      split: sum.splits go.splits option.splits if_splits)

text \<open>
  Claim C4, as amended. The body of every successful update (status 200) is exactly the
  three fields \<open>status\<close> = \<open>updated\<close>, \<open>event_id\<close> = the id of the row that the
  name in the URL selected, and \<open>message\<close> = the fixed confirmation text; the merged
  name, date and message of the event are not in it.
\<close>

theorem UpdateEvent_success_body:
  assumes "UpdateEvent c db = Return (c', db')" and "resp_status c' = 200"
  shows "\<exists>row\<in>set (events db).
           e_name row = params_name c \<and>
           resp_body c' = Some [(''status'', JStr ''updated''), (''event_id'', JInt (e_id row)),
                                (''message'', JStr ''Event updated successfully'')]"
proof -
  from UpdateEvent_200 [OF assms] obtain userID row where
    row: "query_event db (params_name c) userID = Inr row" and
    c': "c' = JSON (Status c 200)
                [(''status'', JStr ''updated''), (''event_id'', JInt (e_id row)),
                 (''message'', JStr ''Event updated successfully'')]"
    by blast
  from query_event_Inr [OF row] have "row \<in> set (events db)" "e_name row = params_name c"
    by simp_all
  with c' show ?thesis
    by (auto simp: JSON_def)
qed

text \<open>A rename of the example event.\<close>

theorem UpdateEvent_success_body_witness:
  "UpdateEvent
     ((request (bearer ''alice'') ''Meeting'')
        \<lparr>body_events := Inr (Some \<lparr>Name = ''Retro'', Date = [], Message = []\<rparr>)\<rparr>)
     (store [meeting]) =
   Return
     ((request (bearer ''alice'') ''Meeting'')
        \<lparr>body_events := Inr (Some \<lparr>Name = ''Retro'', Date = [], Message = []\<rparr>),
         resp_status := 200,
         resp_body := Some [(''status'', JStr ''updated''), (''event_id'', JInt 1),
                            (''message'', JStr ''Event updated successfully'')]\<rparr>,
      store [meeting\<lparr>e_name := ''Retro''\<rparr>]) \<and>
   (\<exists>row\<in>set (events (store [meeting])).
      e_name row = ''Meeting'' \<and>
      Some [(''status'', JStr ''updated''), (''event_id'', JInt 1),
            (''message'', JStr ''Event updated successfully'')] =
      Some [(''status'', JStr ''updated''), (''event_id'', JInt (e_id row)),
            (''message'', JStr ''Event updated successfully'')])"
proof -
  let ?c = "(request (bearer ''alice'') ''Meeting'')
        \<lparr>body_events := Inr (Some \<lparr>Name = ''Retro'', Date = [], Message = []\<rparr>)\<rparr>"
  let ?c' = "?c\<lparr>resp_status := 200,
         resp_body := Some [(''status'', JStr ''updated''), (''event_id'', JInt 1),
                            (''message'', JStr ''Event updated successfully'')]\<rparr>"
  have run: "UpdateEvent ?c (store [meeting]) =
      Return (?c', store [meeting\<lparr>e_name := ''Retro''\<rparr>])"
    by (simp add: UpdateEvent_def update_event_def name_taken_def set_row_def merge_event_def
        Let_def handler_defs example_defs)
  have ok: "resp_status ?c' = 200"
    by simp
  from UpdateEvent_success_body [OF run ok] run show ?thesis
    by (simp add: request_def)
qed

text \<open>
  A successful update of the message: the store holds the new message, the body of the
  response has no \<open>name\<close>, \<open>date\<close> or \<open>details\<close> field, and its \<open>message\<close> is the
  confirmation text, not the message of the event.
\<close>

theorem UpdateEvent_response_lacks_event:
  "UpdateEvent
     ((request (bearer ''alice'') ''Meeting'')
        \<lparr>body_events := Inr (Some \<lparr>Name = [], Date = [], Message = ''bring slides''\<rparr>)\<rparr>)
     (store [meeting]) =
   Return
     ((request (bearer ''alice'') ''Meeting'')
        \<lparr>body_events := Inr (Some \<lparr>Name = [], Date = [], Message = ''bring slides''\<rparr>),
         resp_status := 200,
         resp_body := Some [(''status'', JStr ''updated''), (''event_id'', JInt 1),
                            (''message'', JStr ''Event updated successfully'')]\<rparr>,
      store [meeting\<lparr>e_message := ''bring slides''\<rparr>]) \<and>
   map_of [(''status'', JStr ''updated''), (''event_id'', JInt 1),
           (''message'', JStr ''Event updated successfully'')] ''message''
     \<noteq> Some (JStr ''bring slides'') \<and>
   map_of [(''status'', JStr ''updated''), (''event_id'', JInt 1),
           (''message'', JStr ''Event updated successfully'')] ''name'' = None \<and>
   map_of [(''status'', JStr ''updated''), (''event_id'', JInt 1),
           (''message'', JStr ''Event updated successfully'')] ''date'' = None \<and>
   map_of [(''status'', JStr ''updated''), (''event_id'', JInt 1),
           (''message'', JStr ''Event updated successfully'')] ''details'' = None"
  by (simp add: UpdateEvent_def update_event_def name_taken_def set_row_def merge_event_def
      Let_def handler_defs example_defs)

section \<open>Creating an event and reading it back\<close>

lemma CreateEvent_200:
  assumes "CreateEvent c db = Return (c', db')" and "resp_status c' = 200"
  shows "\<exists>userID ev.
           body_events c = Inr (Some ev) \<and> getUserID c db = Return userID \<and>
           insert_event db (Name ev) (Message ev) (Date ev) userID = Inr db'"
  using assms
  by (auto simp: CreateEvent_def Status_def JSON_def
      split: sum.splits go.splits option.splits)

text \<open>
  Claim C9. After a successful \<open>CreateEvent\<close> (status 200) with the parsed body
  \<open>ev\<close>, a \<open>GetEvent\<close> of the same user for the name of \<open>ev\<close>, on the store that
  the creation left and with a working driver, answers 200 and its \<open>details\<close> are the
  name, the date and the message of \<open>ev\<close>, unchanged.
\<close>

theorem CreateEvent_then_GetEvent:
  assumes created: "CreateEvent c db = Return (c1, db1)" "resp_status c1 = 200"
    and body: "body_events c = Inr (Some ev)"
    and same_user: "locals_user c2 = locals_user c"
    and name: "params_name c2 = Name ev"
    and drv: "query_err db1 = None"
  shows "GetEvent c2 db1 =
     Return (JSON (Status c2 200)
       [(''status'', JStr ''fetched''),
        (''event_id'', JInt (next_event_id db)),
        (''details'', JEvents \<lparr>Name = Name ev, Date = Date ev, Message = Message ev\<rparr>),
        (''message'', JStr ''Event fetched successfully'')])"
proof -
  from CreateEvent_200 [OF created] body obtain userID where
    uid: "getUserID c db = Return userID" and
    ins: "insert_event db (Name ev) (Message ev) (Date ev) userID = Inr db1"
    by auto
  let ?row = "\<lparr>e_id = next_event_id db, e_name = Name ev, e_message = Message ev,
               e_date = Date ev, e_user_id = userID\<rparr>"
  from insert_event_Inr [OF ins] have
    evs: "events db1 = events db @ [?row]" and us: "users db1 = users db" and
    q: "query_err db1 = query_err db" and
    fresh: "\<not> list_ex (\<lambda>e. e_name e = Name ev \<and> e_user_id e = userID) (events db)"
    by simp_all
  have uid2: "getUserID c2 db1 = Return userID"
    using getUserID_same_identity [OF same_user us q] uid by simp
  have "find (\<lambda>e. e_name e = Name ev \<and> e_user_id e = userID) (events db1) = Some ?row"
    unfolding evs by (rule find_appended [OF fresh]) simp
  then have "query_event db1 (params_name c2) userID = Inr ?row"
    using drv name by (simp add: query_event_def)
  with uid2 show ?thesis
    by (simp add: GetEvent_def)
qed

text \<open>The second user creates \<open>X\<close> and reads it back.\<close>

theorem CreateEvent_then_GetEvent_witness:
  "CreateEvent
     ((request (bearer ''bob'') [])
        \<lparr>body_events := Inr (Some \<lparr>Name = ''X'', Date = ''D'', Message = ''M''\<rparr>)\<rparr>)
     (store [meeting]) =
   Return
     ((request (bearer ''bob'') [])
        \<lparr>body_events := Inr (Some \<lparr>Name = ''X'', Date = ''D'', Message = ''M''\<rparr>),
         resp_status := 200,
         resp_body := Some [(''status'', JStr ''created''), (''event_name'', JStr ''X''),
                            (''message'', JStr ''Event created successfully'')]\<rparr>,
      (store [meeting, \<lparr>e_id = 3, e_name = ''X'', e_message = ''M'', e_date = ''D'',
                         e_user_id = 2\<rparr>])\<lparr>next_event_id := 4\<rparr>) \<and>
   GetEvent (request (bearer ''bob'') ''X'')
     ((store [meeting, \<lparr>e_id = 3, e_name = ''X'', e_message = ''M'', e_date = ''D'',
                        e_user_id = 2\<rparr>])\<lparr>next_event_id := 4\<rparr>) =
   Return
     ((request (bearer ''bob'') ''X'')
        \<lparr>resp_status := 200,
         resp_body := Some [(''status'', JStr ''fetched''), (''event_id'', JInt 3),
                            (''details'', JEvents \<lparr>Name = ''X'', Date = ''D'', Message = ''M''\<rparr>),
                            (''message'', JStr ''Event fetched successfully'')]\<rparr>)"
proof -
  let ?ev = "\<lparr>Name = ''X'', Date = ''D'', Message = ''M''\<rparr>"
  let ?c = "(request (bearer ''bob'') [])\<lparr>body_events := Inr (Some ?ev)\<rparr>"
  let ?c1 = "?c\<lparr>resp_status := 200,
         resp_body := Some [(''status'', JStr ''created''), (''event_name'', JStr ''X''),
                            (''message'', JStr ''Event created successfully'')]\<rparr>"
  let ?db1 = "(store [meeting, \<lparr>e_id = 3, e_name = ''X'', e_message = ''M'', e_date = ''D'',
                         e_user_id = 2\<rparr>])\<lparr>next_event_id := 4\<rparr>"
  let ?c2 = "request (bearer ''bob'') ''X''"
  have created: "CreateEvent ?c (store [meeting]) = Return (?c1, ?db1)"
    by (simp add: CreateEvent_def insert_event_def handler_defs example_defs)
  have ok: "resp_status ?c1 = 200"
    by simp
  have body: "body_events ?c = Inr (Some ?ev)"
    by (simp add: request_def)
  have same_user: "locals_user ?c2 = locals_user ?c"
    by (simp add: request_def)
  have name: "params_name ?c2 = Name ?ev"
    by (simp add: request_def)
  have drv: "query_err ?db1 = None"
    by (simp add: store_def)
  from CreateEvent_then_GetEvent [OF created ok body same_user name drv] created
  show ?thesis
    by (simp add: Status_def JSON_def store_def)
qed

section \<open>Deleting an event\<close>

text \<open>
  With a working driver the rows of the resolved user with the given name are removed,
  and the answer is 404 exactly when there was none.
\<close>

lemma DeleteEvent_effect:
  assumes "getUserID c db = Return userID"
    and "prepare_err db = None" and "exec_err db = None" and "rows_err db = None"
  shows "DeleteEvent c db =
     Return
       (if list_ex (\<lambda>e. e_name e = params_name c \<and> e_user_id e = userID) (events db)
        then JSON (Status c 200)
               [(''status'', JStr ''deleted''), (''event_name'', JStr (params_name c)),
                (''message'', JStr ''Event deleted successfully'')]
        else JSON (Status c 404) (error_map ''Record not found''),
        db\<lparr>events := filter (\<lambda>e. \<not> (e_name e = params_name c \<and> e_user_id e = userID))
                         (events db)\<rparr>)"
proof -
  have "length (filter (\<lambda>e. e_name e = params_name c \<and> e_user_id e = userID) (events db)) = 0
        \<longleftrightarrow> \<not> list_ex (\<lambda>e. e_name e = params_name c \<and> e_user_id e = userID) (events db)"
    by (simp add: list_ex_iff filter_empty_conv)
  with assms show ?thesis
    by (simp add: DeleteEvent_def delete_event_def RowsAffected_def Prepare_def Let_def)
qed

text \<open>
  Claim C7 (delete removes the row, answers 404 exactly when no row was affected, and a
  following read of the same name yields NotFound). The deletion is as claimed; the read
  that follows it answers 500, not 404, because of the missing \<^verbatim>\<open>return\<close> in
  \<open>GetEvent\<close>.
\<close>

theorem DeleteEvent_then_GetEvent_answers_500:
  "DeleteEvent (request (bearer ''alice'') ''Meeting'') (store [meeting, standup]) =
   Return
     ((request (bearer ''alice'') ''Meeting'')
        \<lparr>resp_status := 200,
         resp_body := Some [(''status'', JStr ''deleted''), (''event_name'', JStr ''Meeting''),
                            (''message'', JStr ''Event deleted successfully'')]\<rparr>,
      store [standup]) \<and>
   GetEvent (request (bearer ''alice'') ''Meeting'') (store [standup]) =
   Return
     ((request (bearer ''alice'') ''Meeting'')
        \<lparr>resp_status := 500,
         resp_body := Some [(''status'', JStr ''error''),
                            (''message'', JStr ''sql: no rows in result set'')]\<rparr>)"
  by (simp add: DeleteEvent_def delete_event_def RowsAffected_def GetEvent_def Let_def
      handler_defs example_defs)

section \<open>The invariant of the store\<close>

text \<open>
  The empty tables satisfy the invariant, and every statement that the store accepts
  preserves it; hence so does every route.
\<close>

lemma wf_db_empty:
  "wf_db \<lparr>users = [], events = [], next_user_id = 1, next_event_id = 1,
          prepare_err = p, query_err = q, exec_err = e, rows_err = r\<rparr>"
  by (simp add: wf_db_def)

lemma insert_user_wf:
  assumes "wf_db db" and "insert_user db username password = Inr db'"
  shows "wf_db db'"
proof -
  from assms(2) have fresh: "\<not> list_ex (\<lambda>u. u_username u = username) (users db)"
    and db': "db' = db\<lparr>users := users db @
                          [\<lparr>u_id = next_user_id db, u_username = username,
                            u_password = password\<rparr>],
                        next_user_id := next_user_id db + 1\<rparr>"
    by (auto simp: insert_user_def split: option.splits if_splits)
  from assms(1) have below: "\<forall>u\<in>set (users db). u_id u < next_user_id db"
    by (simp add: wf_db_def list_all_iff)
  then have new_id: "next_user_id db \<notin> u_id ` set (users db)"
    by auto
  from fresh have new_name: "username \<notin> u_username ` set (users db)"
    by (auto simp: list_ex_iff)
  from assms(1) new_id new_name below show ?thesis
    unfolding db' wf_db_def list_all_iff list_ex_iff by auto
qed

lemma insert_event_wf:
  assumes "wf_db db" and "insert_event db name message date userID = Inr db'"
  shows "wf_db db'"
proof -
  from assms(2) have fresh: "\<not> list_ex (\<lambda>e. e_name e = name \<and> e_user_id e = userID) (events db)"
    and owner: "list_ex (\<lambda>u. u_id u = userID) (users db)"
    and db': "db' = db\<lparr>events := events db @
                          [\<lparr>e_id = next_event_id db, e_name = name, e_message = message,
                            e_date = date, e_user_id = userID\<rparr>],
                        next_event_id := next_event_id db + 1\<rparr>"
    by (auto simp: insert_event_def split: option.splits if_splits)
  from assms(1) have below: "\<forall>e\<in>set (events db). e_id e < next_event_id db"
    by (simp add: wf_db_def list_all_iff)
  then have new_id: "next_event_id db \<notin> e_id ` set (events db)"
    by auto
  from fresh have new_key: "(name, userID) \<notin> (\<lambda>e. (e_name e, e_user_id e)) ` set (events db)"
    by (auto simp: list_ex_iff)
  from assms(1) new_id new_key below owner show ?thesis
    unfolding db' wf_db_def list_all_iff list_ex_iff by auto
qed

lemma update_event_wf:
  assumes wf: "wf_db db" and upd: "update_event db name message date eid = Inr db'"
  shows "wf_db db'"
proof -
  let ?g = "set_row eid name message date"
  let ?k = "\<lambda>e. (e_name e, e_user_id e)"
  from upd have free: "\<not> name_taken db eid name"
    and db': "db' = db\<lparr>events := map ?g (events db)\<rparr>"
    by (auto simp: update_event_def split: option.splits if_splits)
  from wf have ids: "distinct (map e_id (events db))"
    and keys: "distinct (map ?k (events db))"
    by (simp_all add: wf_db_def)
  from ids have rows: "distinct (events db)"
    by (simp add: distinct_map)
  have inj: "inj_on (?k \<circ> ?g) (set (events db))"
  proof (rule inj_onI)
    fix r1 r2
    assume r1: "r1 \<in> set (events db)" and r2: "r2 \<in> set (events db)"
      and eq: "(?k \<circ> ?g) r1 = (?k \<circ> ?g) r2"
    have clash: False
      if a: "a \<in> set (events db)" "e_id a = eid"
        and b: "b \<in> set (events db)" "e_id b \<noteq> eid"
        and same: "?k (?g a) = ?k (?g b)" for a b
    proof -
      from same a(2) b(2) have "e_name b = name" "e_user_id b = e_user_id a"
        by (simp_all add: set_row_def)
      with a b have "name_taken db eid name"
        unfolding name_taken_def list_ex_iff by blast
      with free show False by simp
    qed
    show "r1 = r2"
    proof (cases "e_id r1 = eid")
      case True
      show ?thesis
      proof (cases "e_id r2 = eid")
        case True
        with \<open>e_id r1 = eid\<close> same_key_same_row [OF ids r1 r2] show ?thesis
          by simp
      next
        case False
        with clash [OF r1 True r2] eq show ?thesis
          by simp
      qed
    next
      case False
      show ?thesis
      proof (cases "e_id r2 = eid")
        case True
        with clash [OF r2 True r1 False] eq show ?thesis
          by simp
      next
        case r2_other: False
        with False eq have "?k r1 = ?k r2"
          by (simp add: set_row_def)
        with same_key_same_row [OF keys r1 r2] show ?thesis
          by simp
      qed
    qed
  qed
  have "distinct (map (?k \<circ> ?g) (events db))"
    using rows inj by (simp add: distinct_map)
  then have keys': "distinct (map ?k (map ?g (events db)))"
    by simp
  have "map e_id (map ?g (events db)) = map e_id (events db)"
    by (simp add: set_row_keeps)
  with ids have ids': "distinct (map e_id (map ?g (events db)))"
    by (simp del: map_map)
  from wf have "list_all (\<lambda>e. e_id e < next_event_id db \<and>
                  list_ex (\<lambda>u. u_id u = e_user_id e) (users db)) (map ?g (events db))"
    by (simp add: wf_db_def list_all_iff set_row_keeps)
  with wf ids' keys' show ?thesis
    unfolding db' wf_db_def by (simp del: map_map)
qed

lemma delete_event_wf:
  assumes "wf_db db" and "delete_event db name userID = Inr (n, db')"
  shows "wf_db db'"
proof -
  from assms(2) have
    db': "db' = db\<lparr>events := filter (\<lambda>e. \<not> (e_name e = name \<and> e_user_id e = userID))
                                (events db)\<rparr>"
    by (auto simp: delete_event_def split: option.splits)
  from assms(1) show ?thesis
    unfolding db' wf_db_def list_all_iff list_ex_iff
    by (auto simp: distinct_map_filter)
qed

lemma CreateEvent_store:
  assumes "CreateEvent c db = Return (c', db')"
  shows "db' = db \<or>
         (\<exists>ev userID. body_events c = Inr (Some ev) \<and> getUserID c db = Return userID \<and>
            insert_event db (Name ev) (Message ev) (Date ev) userID = Inr db')"
  using assms
  by (auto simp: CreateEvent_def split: sum.splits go.splits option.splits)

lemma UpdateEvent_store:
  assumes "UpdateEvent c db = Return (c', db')"
  shows "db' = db \<or>
         (\<exists>userID row name message date.
            getUserID c db = Return userID \<and>
            query_event db (params_name c) userID = Inr row \<and>
            update_event db name message date (e_id row) = Inr db')"
  using assms
  by (auto simp: UpdateEvent_def Let_def split: sum.splits go.splits option.splits if_splits)

lemma DeleteEvent_store:
  assumes "DeleteEvent c db = Return (c', db')"
  shows "\<exists>userID. getUserID c db = Return userID \<and>
           (db' = db \<or> (\<exists>n. delete_event db (params_name c) userID = Inr (n, db')))"
  using assms
  by (auto simp: DeleteEvent_def Let_def
      split: sum.splits go.splits option.splits if_splits prod.splits)

lemma signup_store:
  assumes "signup env c db = (c', db')"
  shows "db' = db \<or> (\<exists>username password. insert_user db username password = Inr db')"
  using assms
  by (auto simp: signup_def split: sum.splits option.splits)

lemma app_preserves_wf:
  assumes "wf_db db" and "app env r c db = Return (c', db')"
  shows "wf_db db'"
proof (cases r)
  case PostLogin
  with assms show ?thesis
    by (simp add: app_def)
next
  case PostSignup
  with assms(2) have "signup env c db = (c', db')"
    by (simp add: app_def)
  from signup_store [OF this] assms(1) show ?thesis
    by (auto dest: insert_user_wf)
next
  case PostEvent
  with assms(2) have "CreateEvent c db = Return (c', db')"
    by (simp add: app_def)
  from CreateEvent_store [OF this] assms(1) show ?thesis
    by (auto dest: insert_event_wf)
next
  case GetEventName
  with assms show ?thesis
    by (auto simp: app_def split: go.splits)
next
  case PutEventName
  with assms(2) have "UpdateEvent c db = Return (c', db')"
    by (simp add: app_def)
  from UpdateEvent_store [OF this] assms(1) show ?thesis
    by (auto dest: update_event_wf)
next
  case DeleteEventName
  with assms(2) have "DeleteEvent c db = Return (c', db')"
    by (simp add: app_def)
  from DeleteEvent_store [OF this] assms(1) show ?thesis
    by (auto dest: delete_event_wf)
qed

section \<open>Ownership\<close>

text \<open>
  No handler changes a row of another user than the resolved one: the rows of the others
  are the same before and after.
\<close>

lemma CreateEvent_keeps_others:
  assumes "getUserID c db = Return userID" and "CreateEvent c db = Return (c', db')"
  shows "rows_of_others userID db' = rows_of_others userID db"
proof -
  from CreateEvent_store [OF assms(2)] assms(1) consider "db' = db" |
    ev :: Events where "insert_event db (Name ev) (Message ev) (Date ev) userID = Inr db'"
    by auto
  then show ?thesis
  proof cases
    case 1
    then show ?thesis by simp
  next
    case 2
    from insert_event_Inr(1) [OF this] show ?thesis
      by (simp add: rows_of_others_def)
  qed
qed

lemma UpdateEvent_keeps_others:
  assumes wf: "wf_db db" and uid: "getUserID c db = Return userID"
    and run: "UpdateEvent c db = Return (c', db')"
  shows "rows_of_others userID db' = rows_of_others userID db"
proof -
  from UpdateEvent_store [OF run] uid consider "db' = db" |
    row name message date where "query_event db (params_name c) userID = Inr row"
      "update_event db name message date (e_id row) = Inr db'"
    by auto
  then show ?thesis
  proof cases
    case 1
    then show ?thesis by simp
  next
    case 2
    let ?g = "set_row (e_id row) name message date"
    from 2(2) have evs: "events db' = map ?g (events db)"
      by (auto simp: update_event_def split: option.splits if_splits)
    from query_event_Inr [OF 2(1)] have mem: "row \<in> set (events db)"
      and owner: "e_user_id row = userID"
      by simp_all
    from wf have ids: "distinct (map e_id (events db))"
      by (simp add: wf_db_def)
    have other: "?g r = r" if "r \<in> set (events db)" "e_user_id r \<noteq> userID" for r
    proof -
      from that owner have "r \<noteq> row" by auto
      with same_key_same_row [OF ids that(1) mem] have "e_id r \<noteq> e_id row" by auto
      then show ?thesis by (simp add: set_row_def)
    qed
    have "filter (\<lambda>e. e_user_id e \<noteq> userID) (map ?g (events db)) =
          map ?g (filter (\<lambda>e. e_user_id e \<noteq> userID) (events db))"
      by (simp add: filter_map o_def set_row_keeps)
    also have "\<dots> = map (\<lambda>r. r) (filter (\<lambda>e. e_user_id e \<noteq> userID) (events db))"
      by (rule map_cong [OF refl]) (simp add: other)
    finally show ?thesis
      by (simp add: rows_of_others_def evs)
  qed
qed

lemma DeleteEvent_keeps_others:
  assumes "getUserID c db = Return userID" and "DeleteEvent c db = Return (c', db')"
  shows "rows_of_others userID db' = rows_of_others userID db"
proof -
  from DeleteEvent_store [OF assms(2)] assms(1) consider "db' = db" |
    n where "delete_event db (params_name c) userID = Inr (n, db')"
    by auto
  then show ?thesis
  proof cases
    case 1
    then show ?thesis by simp
  next
    case 2
    then have "events db' =
        filter (\<lambda>e. \<not> (e_name e = params_name c \<and> e_user_id e = userID)) (events db)"
      by (auto simp: delete_event_def split: option.splits)
    then show ?thesis
      by (auto simp: rows_of_others_def intro: filter_cong)
  qed
qed

text \<open>
  Claim C8 (no event is returned to or changed by another user, so that a user who
  fetches a name created by another one gets NotFound). The second user does not get the
  event of the first, but the answer is 500, not 404, because of the missing
  \<^verbatim>\<open>return\<close> in \<open>GetEvent\<close>.
\<close>

theorem GetEvent_of_another_user_answers_500:
  "CreateEvent
     ((request (bearer ''alice'') [])
        \<lparr>body_events := Inr (Some \<lparr>Name = ''Plan'', Date = ''2025-02-01'', Message = ''q1''\<rparr>)\<rparr>)
     (store []) =
   Return
     ((request (bearer ''alice'') [])
        \<lparr>body_events := Inr (Some \<lparr>Name = ''Plan'', Date = ''2025-02-01'', Message = ''q1''\<rparr>),
         resp_status := 200,
         resp_body := Some [(''status'', JStr ''created''), (''event_name'', JStr ''Plan''),
                            (''message'', JStr ''Event created successfully'')]\<rparr>,
      (store [\<lparr>e_id = 3, e_name = ''Plan'', e_message = ''q1'', e_date = ''2025-02-01'',
                e_user_id = 1\<rparr>])\<lparr>next_event_id := 4\<rparr>) \<and>
   getUserID (request (bearer ''bob'') ''Plan'')
     ((store [\<lparr>e_id = 3, e_name = ''Plan'', e_message = ''q1'', e_date = ''2025-02-01'',
               e_user_id = 1\<rparr>])\<lparr>next_event_id := 4\<rparr>) = Return 2 \<and>
   GetEvent (request (bearer ''bob'') ''Plan'')
     ((store [\<lparr>e_id = 3, e_name = ''Plan'', e_message = ''q1'', e_date = ''2025-02-01'',
               e_user_id = 1\<rparr>])\<lparr>next_event_id := 4\<rparr>) =
   Return
     ((request (bearer ''bob'') ''Plan'')
        \<lparr>resp_status := 500,
         resp_body := Some [(''status'', JStr ''error''),
                            (''message'', JStr ''sql: no rows in result set'')]\<rparr>)"
  by (simp add: CreateEvent_def insert_event_def GetEvent_def Let_def
      handler_defs example_defs)

section \<open>Login\<close>

text \<open>
  Claim C6. For parsed credentials, a working driver and a store that satisfies the
  invariant: when no user row has the username, login answers 400 with the message that
  no such user exists; when the row exists and bcrypt rejects the password, it answers
  401; when bcrypt accepts it and the signature succeeds, it answers with the token that
  signs the claims whose \<open>username\<close> is the submitted username.
\<close>

theorem login_outcomes:
  assumes creds: "body_creds c = Some creds"
    and drv: "query_err db = None"
    and wf: "wf_db db"
  shows "(\<not> list_ex (\<lambda>u. u_username u = Username creds) (users db) \<longrightarrow>
            login env c db =
              JSON (Status c 400) (error_map ''No user with the given credentials exists'')) \<and>
         (\<forall>u\<in>set (users db). u_username u = Username creds \<longrightarrow>
            \<not> CompareHashAndPassword env (u_password u) (Password creds) \<longrightarrow>
            login env c db =
              JSON (Status c 401) [(''error'', JStr ''Invalid username or password'')]) \<and>
         (\<forall>u\<in>set (users db). u_username u = Username creds \<longrightarrow>
            CompareHashAndPassword env (u_password u) (Password creds) \<longrightarrow>
            (\<forall>signedToken.
               SignedString env (token_claims env (Username creds)) = Some signedToken \<longrightarrow>
               login env c db = JSON c [(''token'', JStr signedToken)] \<and>
               token_claims env (Username creds) ''username'' =
                 Some (ClaimString (Username creds))))"
proof (intro conjI impI ballI allI)
  assume "\<not> list_ex (\<lambda>u. u_username u = Username creds) (users db)"
  from query_user_credentials_none [OF drv this] creds
  show "login env c db =
          JSON (Status c 400) (error_map ''No user with the given credentials exists'')"
    by (simp add: login_def)
next
  fix u
  assume u: "u \<in> set (users db)" "u_username u = Username creds"
    and bad: "\<not> CompareHashAndPassword env (u_password u) (Password creds)"
  from wf have "distinct (map u_username (users db))"
    by (simp add: wf_db_def)
  from query_user_credentials_row [OF drv this u(1)] u(2) creds bad
  show "login env c db = JSON (Status c 401) [(''error'', JStr ''Invalid username or password'')]"
    by (simp add: login_def)
next
  fix u signedToken
  assume u: "u \<in> set (users db)" "u_username u = Username creds"
    and good: "CompareHashAndPassword env (u_password u) (Password creds)"
    and signed: "SignedString env (token_claims env (Username creds)) = Some signedToken"
  from wf have "distinct (map u_username (users db))"
    by (simp add: wf_db_def)
  from query_user_credentials_row [OF drv this u(1)] u(2) creds good signed
  show "login env c db = JSON c [(''token'', JStr signedToken)]"
    by (simp add: login_def jwtSigner_def)
next
  show "token_claims env (Username creds) ''username'' = Some (ClaimString (Username creds))"
    by (simp add: token_claims_def)
qed

text \<open>An unknown user, a wrong password and a right password.\<close>

theorem login_outcomes_witness:
  "login toy_env
     ((request NoLocal [])\<lparr>body_creds := Some \<lparr>Username = ''carol'', Password = ''secret''\<rparr>\<rparr>)
     (store []) =
   (request NoLocal [])
     \<lparr>body_creds := Some \<lparr>Username = ''carol'', Password = ''secret''\<rparr>,
      resp_status := 400,
      resp_body := Some [(''status'', JStr ''error''),
                         (''message'', JStr ''No user with the given credentials exists'')]\<rparr> \<and>
   login toy_env
     ((request NoLocal [])\<lparr>body_creds := Some \<lparr>Username = ''alice'', Password = ''guess''\<rparr>\<rparr>)
     (store []) =
   (request NoLocal [])
     \<lparr>body_creds := Some \<lparr>Username = ''alice'', Password = ''guess''\<rparr>,
      resp_status := 401,
      resp_body := Some [(''error'', JStr ''Invalid username or password'')]\<rparr> \<and>
   login toy_env
     ((request NoLocal [])\<lparr>body_creds := Some \<lparr>Username = ''alice'', Password = ''secret''\<rparr>\<rparr>)
     (store []) =
   (request NoLocal [])
     \<lparr>body_creds := Some \<lparr>Username = ''alice'', Password = ''secret''\<rparr>,
      resp_body := Some [(''token'', JStr ''jwt:alice'')]\<rparr> \<and>
   token_claims toy_env ''alice'' ''username'' = Some (ClaimString ''alice'')"
proof -
  let ?db = "store []"
  let ?c = "\<lambda>u p. (request NoLocal [])\<lparr>body_creds := Some \<lparr>Username = u, Password = p\<rparr>\<rparr>"
  have creds: "body_creds (?c u p) = Some \<lparr>Username = u, Password = p\<rparr>" for u p
    by (simp add: request_def)
  have drv: "query_err ?db = None"
    by (simp add: store_def)
  have wf: "wf_db ?db"
    by (simp add: wf_db_def example_defs)
  have unknown: "\<not> list_ex (\<lambda>u. u_username u = ''carol'') (users ?db)"
    by (simp add: example_defs)
  have alice: "alice \<in> set (users ?db)" "u_username alice = ''alice''"
    by (simp_all add: example_defs)
  have bad: "\<not> CompareHashAndPassword toy_env (u_password alice) ''guess''"
    by (simp add: toy_env_def alice_def)
  have good: "CompareHashAndPassword toy_env (u_password alice) ''secret''"
    by (simp add: toy_env_def alice_def)
  have signed: "SignedString toy_env (token_claims toy_env ''alice'') = Some ''jwt:alice''"
    by (simp add: toy_env_def token_claims_def)
  have first: "login toy_env (?c ''carol'' ''secret'') ?db =
      JSON (Status (?c ''carol'' ''secret'') 400)
        (error_map ''No user with the given credentials exists'')"
    using login_outcomes [OF creds [of "''carol''" "''secret''"] drv wf, where env = toy_env] unknown by simp
  have second: "login toy_env (?c ''alice'' ''guess'') ?db =
      JSON (Status (?c ''alice'' ''guess'') 401) [(''error'', JStr ''Invalid username or password'')]"
    using login_outcomes [OF creds [of "''alice''" "''guess''"] drv wf, where env = toy_env] alice bad by auto
  have third: "login toy_env (?c ''alice'' ''secret'') ?db =
      JSON (?c ''alice'' ''secret'') [(''token'', JStr ''jwt:alice'')] \<and>
      token_claims toy_env ''alice'' ''username'' = Some (ClaimString ''alice'')"
    using login_outcomes [OF creds [of "''alice''" "''secret''"] drv wf, where env = toy_env] alice good signed
    by auto
  from first second third show ?thesis
    by (simp add: Status_def JSON_def error_map_def)
qed

section \<open>The response envelope\<close>

lemma CreateEvent_envelope:
  "CreateEvent c db = Return (c', db') \<Longrightarrow> has_envelope c'"
  by (auto simp: CreateEvent_def has_envelope_def Status_def JSON_def error_map_def
      split: sum.splits go.splits option.splits)

lemma GetEvent_envelope:
  "GetEvent c db = Return c' \<Longrightarrow> has_envelope c'"
  by (auto simp: GetEvent_def has_envelope_def Status_def JSON_def error_map_def Let_def
      split: sum.splits go.splits option.splits if_splits)

lemma UpdateEvent_envelope:
  "UpdateEvent c db = Return (c', db') \<Longrightarrow> has_envelope c'"
  by (auto simp: UpdateEvent_def has_envelope_def Status_def JSON_def error_map_def Let_def
      split: sum.splits go.splits option.splits if_splits)

lemma DeleteEvent_envelope:
  "DeleteEvent c db = Return (c', db') \<Longrightarrow> has_envelope c'"
  by (auto simp: DeleteEvent_def has_envelope_def Status_def JSON_def error_map_def Let_def
      split: sum.splits go.splits option.splits if_splits prod.splits)

text \<open>
  Claim C5, as amended. Every response that a handler of the four event routes writes,
  success or failure, is a JSON object with a \<open>status\<close> field among \<open>created\<close>,
  \<open>updated\<close>, \<open>fetched\<close>, \<open>deleted\<close>, \<open>error\<close> and a \<open>message\<close> field.
\<close>

theorem protected_responses_have_envelope:
  assumes "protected r" and "app env r c db = Return (c', db')"
  shows "has_envelope c'"
proof (cases r)
  case PostEvent
  with assms(2) show ?thesis
    by (simp add: app_def CreateEvent_envelope)
next
  case GetEventName
  with assms(2) show ?thesis
    by (auto simp: app_def split: go.splits intro: GetEvent_envelope)
next
  case PutEventName
  with assms(2) show ?thesis
    by (simp add: app_def UpdateEvent_envelope)
next
  case DeleteEventName
  with assms(2) show ?thesis
    by (simp add: app_def DeleteEvent_envelope)
qed (use assms(1) in \<open>simp_all add: protected_def\<close>)

text \<open>Reading the example event.\<close>

theorem protected_responses_have_envelope_witness:
  "protected GetEventName \<and>
   app toy_env GetEventName (request (bearer ''alice'') ''Meeting'') (store [meeting]) =
   Return
     ((request (bearer ''alice'') ''Meeting'')
        \<lparr>resp_status := 200,
         resp_body := Some [(''status'', JStr ''fetched''), (''event_id'', JInt 1),
                            (''details'', JEvents \<lparr>Name = ''Meeting'', Date = ''2025-01-15'',
                                                    Message = ''sync''\<rparr>),
                            (''message'', JStr ''Event fetched successfully'')]\<rparr>,
      store [meeting]) \<and>
   has_envelope
     ((request (bearer ''alice'') ''Meeting'')
        \<lparr>resp_status := 200,
         resp_body := Some [(''status'', JStr ''fetched''), (''event_id'', JInt 1),
                            (''details'', JEvents \<lparr>Name = ''Meeting'', Date = ''2025-01-15'',
                                                    Message = ''sync''\<rparr>),
                            (''message'', JStr ''Event fetched successfully'')]\<rparr>)"
proof -
  have route: "protected GetEventName"
    by (simp add: protected_def)
  have run: "app toy_env GetEventName (request (bearer ''alice'') ''Meeting'') (store [meeting]) =
      Return
        ((request (bearer ''alice'') ''Meeting'')
           \<lparr>resp_status := 200,
            resp_body := Some [(''status'', JStr ''fetched''), (''event_id'', JInt 1),
                               (''details'', JEvents \<lparr>Name = ''Meeting'', Date = ''2025-01-15'',
                                                       Message = ''sync''\<rparr>),
                               (''message'', JStr ''Event fetched successfully'')]\<rparr>,
         store [meeting])"
    by (simp add: app_def GetEvent_def Let_def handler_defs example_defs)
  from protected_responses_have_envelope [OF route run] route run show ?thesis
    by simp
qed

text \<open>
  On the public login route a successful login answers with the object that has the
  single field \<open>token\<close>: neither \<open>status\<close> nor \<open>message\<close>.
\<close>

theorem login_token_response_has_no_status:
  "app toy_env PostLogin
     ((request NoLocal [])\<lparr>body_creds := Some \<lparr>Username = ''alice'', Password = ''secret''\<rparr>\<rparr>)
     (store []) =
   Return
     ((request NoLocal [])
        \<lparr>body_creds := Some \<lparr>Username = ''alice'', Password = ''secret''\<rparr>,
         resp_body := Some [(''token'', JStr ''jwt:alice'')]\<rparr>,
      store []) \<and>
   \<not> has_envelope
     ((request NoLocal [])
        \<lparr>body_creds := Some \<lparr>Username = ''alice'', Password = ''secret''\<rparr>,
         resp_body := Some [(''token'', JStr ''jwt:alice'')]\<rparr>) \<and>
   map_of [(''token'', JStr ''jwt:alice'')] ''status'' = None \<and>
   map_of [(''token'', JStr ''jwt:alice'')] ''message'' = None"
  by (simp add: app_def login_def jwtSigner_def token_claims_def query_user_credentials_def
      has_envelope_def toy_env_def handler_defs example_defs)

end
